theory Spec2Isabelle
  imports Main "HOL-Library.Sublist"
begin

section \<open>Book collection API: the data model and the request handlers\<close>

text \<open>
  The program is a Flask application (\<^verbatim>\<open>app.py\<close>) over two SQLAlchemy models
  (\<^verbatim>\<open>models.py\<close>). Every handler is embedded as a function of the database state and
  the request's inputs that returns the response (body and HTTP status) and, for the
  handlers that write, the state after the request.
\<close>

subsection \<open>Strings, JSON objects, truthiness\<close>

text \<open>
  A Python \<^verbatim>\<open>str\<close> is a sequence of Unicode code points; the literals of the source are
  Chinese, so a string is modelled as the list of its code points. \<open>ascii\<close> writes an
  ASCII literal of the source.
\<close>

type_synonym pystr = "nat list"

definition ascii :: "string \<Rightarrow> pystr" where
  "ascii s = map of_char s"

text \<open>
  A JSON object as Python has it after parsing: the list of the items of the
  \<^verbatim>\<open>dict\<close> (the keys of a \<^verbatim>\<open>dict\<close> are distinct). The value of a field is a string or
  \<^verbatim>\<open>null\<close> (\<open>None\<close>).
\<close>

type_synonym dict = "(pystr \<times> pystr option) list"

text \<open>
  A JSON value as \<^verbatim>\<open>request.get_json()\<close> returns it: \<^verbatim>\<open>null\<close>, an object, or a value
  of another kind (an array, a string, a number, a boolean), of which the handlers
  use only the truth value that Python gives it.
\<close>

datatype pyjson = JNull | JObject dict | JOther bool

text \<open>Python's truth value of such a value: an empty \<^verbatim>\<open>dict\<close> is false.\<close>

fun json_truthy :: "pyjson \<Rightarrow> bool" where
  "json_truthy JNull = False"
| "json_truthy (JObject d) = (d \<noteq> [])"
| "json_truthy (JOther t) = t"

text \<open>\<^verbatim>\<open>data.get(field)\<close>: \<^verbatim>\<open>None\<close> when the key is absent.\<close>

definition dict_get :: "dict \<Rightarrow> pystr \<Rightarrow> pystr option" where
  "dict_get d k = (case map_of d k of None \<Rightarrow> None | Some v \<Rightarrow> v)"

text \<open>Python's truth value of a string or \<^verbatim>\<open>None\<close>: false for \<^verbatim>\<open>None\<close> and for \<^verbatim>\<open>''\<close>.\<close>

definition truthy :: "pystr option \<Rightarrow> bool" where
  "truthy v = (case v of None \<Rightarrow> False | Some s \<Rightarrow> s \<noteq> [])"

subsection \<open>The models (\<^verbatim>\<open>models.py\<close>)\<close>

type_synonym datetime = nat

text \<open>
  \<^verbatim>\<open>class Book\<close>. An attribute of the Python object can hold \<^verbatim>\<open>None\<close>; the columns
  \<^verbatim>\<open>ISBN\<close>, \<^verbatim>\<open>Title\<close> and \<^verbatim>\<open>Author\<close> are declared \<^verbatim>\<open>nullable=False\<close>, which the database
  checks when a row is written (\<open>not_null_ok\<close> below).
\<close>

record book =
  BookID :: nat
  ISBN :: "pystr option"
  Title :: "pystr option"
  Author :: "pystr option"
  Publisher :: "pystr option"
  Category :: "pystr option"
  Status :: "pystr option"
  CreateDate :: "datetime option"

text \<open>
  \<^verbatim>\<open>class BorrowRecord\<close>; its column \<^verbatim>\<open>BookID\<close> is named \<open>BookID_fk\<close> here, the name
  \<open>BookID\<close> being the field of \<open>book\<close>.
\<close>

record borrow_record =
  RecordID :: nat
  BookID_fk :: nat
  BorrowerName :: pystr
  BorrowDate :: nat
  ReturnDate :: "nat option"
  Notes :: "pystr option"

text \<open>
  The dictionary that \<^verbatim>\<open>Book.to_dict\<close> returns. \<^verbatim>\<open>isoformat()\<close> renders the timestamp
  as text, one text for each timestamp; the model keeps the timestamp.
\<close>

record book_dict =
  bookID :: nat
  isbn :: "pystr option"
  title :: "pystr option"
  author :: "pystr option"
  publisher :: "pystr option"
  category :: "pystr option"
  status :: "pystr option"
  createDate :: "datetime option"

definition to_dict :: "book \<Rightarrow> book_dict" where
  "to_dict self = \<lparr>bookID = BookID self, isbn = ISBN self, title = Title self,
     author = Author self, publisher = Publisher self, category = Category self,
     status = Status self, createDate = CreateDate self\<rparr>"

text \<open>\<^verbatim>\<open>default='...'\<close> of the column \<^verbatim>\<open>Status\<close>: the two code points U+5728 U+67B6.\<close>

definition default_Status :: pystr where
  "default_Status = [0x5728, 0x67B6]"

subsection \<open>The database\<close>

text \<open>
  The table \<^verbatim>\<open>Books\<close> in the order in which \<^verbatim>\<open>Book.query.all()\<close> returns its rows, the
  table \<^verbatim>\<open>BorrowRecords\<close>, and the next value of the autoincrement key of \<^verbatim>\<open>Books\<close>.
  The store is reachable: no statement fails for a reason outside the program.
\<close>

record db =
  Books :: "book list"
  BorrowRecords :: "borrow_record list"
  next_BookID :: nat

text \<open>
  The exceptions the handlers can meet. Each is a subclass of Python's \<^verbatim>\<open>Exception\<close>:
  \<open>NotFound\<close> is \<^verbatim>\<open>werkzeug.exceptions.NotFound\<close>, the \<^verbatim>\<open>HTTPException\<close> that
  \<^verbatim>\<open>abort(404)\<close> raises; \<open>BadRequest\<close> and \<open>UnsupportedMediaType\<close> are the
  \<^verbatim>\<open>HTTPException\<close>s that \<^verbatim>\<open>request.get_json()\<close> raises on a body that is not JSON;
  \<open>AttributeError\<close> is what \<^verbatim>\<open>data.get\<close> raises on a value that is not a \<^verbatim>\<open>dict\<close>.
\<close>

datatype exn = NotFound | TypeError | KeyError | IntegrityError
  | BadRequest | UnsupportedMediaType | AttributeError

definition bind_exn :: "exn + 'a \<Rightarrow> ('a \<Rightarrow> exn + 'b) \<Rightarrow> exn + 'b" where
  "bind_exn r f = (case r of Inl e \<Rightarrow> Inl e | Inr x \<Rightarrow> f x)"

text \<open>\<^verbatim>\<open>data[key]\<close>.\<close>

definition dict_item :: "dict \<Rightarrow> pystr \<Rightarrow> exn + pystr option" where
  "dict_item d k = (case map_of d k of None \<Rightarrow> Inl KeyError | Some v \<Rightarrow> Inr v)"

text \<open>\<^verbatim>\<open>Book.query.get(ident)\<close>: the row with that primary key.\<close>

definition query_get :: "book list \<Rightarrow> nat \<Rightarrow> book option" where
  "query_get books ident = find (\<lambda>b. BookID b = ident) books"

text \<open>\<^verbatim>\<open>Book.query.get_or_404(ident)\<close>: the row, or \<^verbatim>\<open>abort(404)\<close>.\<close>

definition get_or_404 :: "book list \<Rightarrow> nat \<Rightarrow> exn + book" where
  "get_or_404 books ident =
     (case query_get books ident of None \<Rightarrow> Inl NotFound | Some b \<Rightarrow> Inr b)"

definition not_null_ok :: "book \<Rightarrow> bool" where
  "not_null_ok b = (ISBN b \<noteq> None \<and> Title b \<noteq> None \<and> Author b \<noteq> None)"

text \<open>
  What an \<^verbatim>\<open>INSERT\<close> stores for a new object: the ORM leaves a column whose attribute
  is \<^verbatim>\<open>None\<close> out of the statement, so the column's default applies (\<^verbatim>\<open>Status\<close>,
  \<^verbatim>\<open>CreateDate\<close> with \<^verbatim>\<open>datetime.utcnow\<close>, read as \<open>now\<close>).
\<close>

definition insert_defaults :: "datetime \<Rightarrow> book \<Rightarrow> book" where
  "insert_defaults now b =
     b\<lparr>Status := (case Status b of None \<Rightarrow> Some default_Status | Some s \<Rightarrow> Some s),
       CreateDate := (case CreateDate b of None \<Rightarrow> Some now | Some t \<Rightarrow> Some t)\<rparr>"

text \<open>
  \<^verbatim>\<open>db.session.add(book); db.session.commit()\<close>: the row gets the next key and the
  defaults and is appended, unless a \<^verbatim>\<open>NOT NULL\<close> column is null. The result is the
  object as it reads after the commit, and the new state.
\<close>

definition session_add_commit :: "db \<Rightarrow> datetime \<Rightarrow> book \<Rightarrow> exn + (book \<times> db)" where
  "session_add_commit st now b =
     (let row = insert_defaults now (b\<lparr>BookID := next_BookID st\<rparr>)
      in if not_null_ok row
         then Inr (row, st\<lparr>Books := Books st @ [row], next_BookID := Suc (next_BookID st)\<rparr>)
         else Inl IntegrityError)"

subsection \<open>Responses\<close>

text \<open>
  The JSON bodies the handlers build. \<open>Error_str e\<close> is \<^verbatim>\<open>{"error": str(e)}\<close> for a
  caught exception \<open>e\<close>; \<open>Summary_json total borrowed available\<close> is the object of
  \<^verbatim>\<open>get_summary_stats\<close>; an entry \<open>(c, n)\<close> of \<open>Category_json\<close> is
  \<^verbatim>\<open>{'category': c, 'count': n}\<close>.
\<close>

datatype json =
    Hello_json
  | Book_json book_dict
  | Books_json "book_dict list"
  | Error_json pystr
  | Error_str exn
  | Message_json pystr
  | Summary_json int int int
  | Category_json "(pystr \<times> nat) list"

type_synonym response = "json \<times> nat"

subsection \<open>The handlers (\<^verbatim>\<open>app.py\<close>)\<close>


definition get_book :: "db \<Rightarrow> nat \<Rightarrow> response" where
  "get_book st book_id =
     (case get_or_404 (Books st) book_id of
        Inl e \<Rightarrow> (Error_str e, 500)
      | Inr book \<Rightarrow> (Book_json (to_dict book), 200))"

text \<open>The message of \<^verbatim>\<open>if not data\<close>: six code points, "no data was provided".\<close>

definition no_data_msg :: pystr where
  "no_data_msg = [0x6CA1, 0x6709, 0x63D0, 0x4F9B, 0x6570, 0x636E]"

text \<open>
  The f-string of the loop over \<^verbatim>\<open>required_fields\<close>: two code points ("field"), a
  space, the field's name in single quotes, a space, four code points ("is required").
\<close>

definition required_msg :: "pystr \<Rightarrow> pystr" where
  "required_msg field =
     [0x5B57, 0x6BB5, 0x20, 0x27] @ field @ [0x27, 0x20, 0x662F, 0x5FC5, 0x9700, 0x7684]"

definition required_fields :: "pystr list" where
  "required_fields = [ascii ''isbn'', ascii ''title'', ascii ''author'']"

text \<open>
  The constructor call \<^verbatim>\<open>Book(ISBN=data['isbn'], ...)\<close>: \<^verbatim>\<open>data['isbn']\<close> raises
  \<^verbatim>\<open>KeyError\<close> on an absent key, \<^verbatim>\<open>data.get('status', default)\<close> gives the default
  only when the key is absent. The key is assigned by the insert.
\<close>

definition new_Book :: "dict \<Rightarrow> exn + book" where
  "new_Book d =
     bind_exn (dict_item d (ascii ''isbn'')) (\<lambda>i.
     bind_exn (dict_item d (ascii ''title'')) (\<lambda>t.
     bind_exn (dict_item d (ascii ''author'')) (\<lambda>a.
       Inr \<lparr>BookID = 0, ISBN = i, Title = t, Author = a,
            Publisher = dict_get d (ascii ''publisher''),
            Category = dict_get d (ascii ''category''),
            Status = (case map_of d (ascii ''status'') of
                        None \<Rightarrow> Some default_Status | Some v \<Rightarrow> v),
            CreateDate = None\<rparr>)))"

text \<open>
  \<^verbatim>\<open>add_book\<close>. \<open>got\<close> is the outcome of \<^verbatim>\<open>request.get_json()\<close>, which is called
  inside the \<^verbatim>\<open>try\<close>: the exception it raises (\<open>Inl\<close>), caught like any other, or
  the value it returns (\<open>Inr\<close>). A false value is refused by \<^verbatim>\<open>if not data\<close>; on a
  true value that is not an object, \<^verbatim>\<open>data.get\<close> raises.
\<close>

definition add_book :: "db \<Rightarrow> datetime \<Rightarrow> exn + pyjson \<Rightarrow> response \<times> db" where
  "add_book st now got =
     (case got of
        Inl e \<Rightarrow> ((Error_str e, 500), st)
      | Inr data \<Rightarrow>
          if \<not> json_truthy data then ((Error_json no_data_msg, 400), st)
          else (case data of
                  JObject d \<Rightarrow>
                    (case find (\<lambda>field. \<not> truthy (dict_get d field)) required_fields of
                       Some field \<Rightarrow> ((Error_json (required_msg field), 400), st)
                     | None \<Rightarrow>
                         (case bind_exn (new_Book d) (session_add_commit st now) of
                            Inl e \<Rightarrow> ((Error_str e, 500), st)
                          | Inr (book, st') \<Rightarrow> ((Book_json (to_dict book), 201), st')))
                | _ \<Rightarrow> ((Error_str AttributeError, 500), st)))"

text \<open>\<^verbatim>\<open>if key in data: book.attr = data[key]\<close>, \<open>upd\<close> being the assignment.\<close>

definition set_if_present ::
  "dict \<Rightarrow> pystr \<Rightarrow> (pystr option \<Rightarrow> book \<Rightarrow> book) \<Rightarrow> book \<Rightarrow> book" where
  "set_if_present d k upd b = (case map_of d k of None \<Rightarrow> b | Some v \<Rightarrow> upd v b)"

text \<open>The six assignments of \<^verbatim>\<open>update_book\<close>, in the order of the source.\<close>

definition assign_fields :: "dict \<Rightarrow> book \<Rightarrow> book" where
  "assign_fields d b =
     (let b1 = set_if_present d (ascii ''isbn'') (\<lambda>v x. x\<lparr>ISBN := v\<rparr>) b;
          b2 = set_if_present d (ascii ''title'') (\<lambda>v x. x\<lparr>Title := v\<rparr>) b1;
          b3 = set_if_present d (ascii ''author'') (\<lambda>v x. x\<lparr>Author := v\<rparr>) b2;
          b4 = set_if_present d (ascii ''publisher'') (\<lambda>v x. x\<lparr>Publisher := v\<rparr>) b3;
          b5 = set_if_present d (ascii ''category'') (\<lambda>v x. x\<lparr>Category := v\<rparr>) b4
      in set_if_present d (ascii ''status'') (\<lambda>v x. x\<lparr>Status := v\<rparr>) b5)"

text \<open>
  \<^verbatim>\<open>update_book\<close>, for a body that is a JSON object (\<open>Some\<close>) or \<^verbatim>\<open>null\<close> (\<open>None\<close>);
  on a \<^verbatim>\<open>null\<close> body \<^verbatim>\<open>'isbn' in data\<close> raises \<^verbatim>\<open>TypeError\<close>. The commit
  writes the row with that key; it fails, and the rollback leaves the table as it was,
  when a \<^verbatim>\<open>NOT NULL\<close> column would become null.
\<close>

definition update_book :: "db \<Rightarrow> nat \<Rightarrow> dict option \<Rightarrow> response \<times> db" where
  "update_book st book_id data =
     (case get_or_404 (Books st) book_id of
        Inl e \<Rightarrow> ((Error_str e, 500), st)
      | Inr book \<Rightarrow>
          (case data of
             None \<Rightarrow> ((Error_str TypeError, 500), st)
           | Some d \<Rightarrow>
               (let book' = assign_fields d book
                in if not_null_ok book'
                   then ((Book_json (to_dict book'), 200),
                         st\<lparr>Books := map (\<lambda>b. if BookID b = book_id then book' else b) (Books st)\<rparr>)
                   else ((Error_str IntegrityError, 500), st))))"

text \<open>The two messages of \<^verbatim>\<open>delete_book\<close>: the refusal (17 code points) and the success.\<close>

definition unreturned_msg :: pystr where
  "unreturned_msg = [0x8BE5, 0x56FE, 0x4E66, 0x6709, 0x672A, 0x5F52, 0x8FD8, 0x7684, 0x501F,
     0x9605, 0x8BB0, 0x5F55, 0xFF0C, 0x65E0, 0x6CD5, 0x5220, 0x9664]"

definition deleted_msg :: pystr where
  "deleted_msg = [0x56FE, 0x4E66, 0x5220, 0x9664, 0x6210, 0x529F]"

text \<open>
  \<^verbatim>\<open>delete_book\<close>. \<^verbatim>\<open>filter_by(BookID=book_id, ReturnDate=None).first()\<close> is the first
  active record of the book. When the book is deleted, the ORM first detaches the
  records that still refer to it by setting their \<^verbatim>\<open>BookID\<close> to null, which the
  \<^verbatim>\<open>nullable=False\<close> of that column refuses: the delete then fails and is rolled back.
\<close>

definition delete_book :: "db \<Rightarrow> nat \<Rightarrow> response \<times> db" where
  "delete_book st book_id =
     (case get_or_404 (Books st) book_id of
        Inl e \<Rightarrow> ((Error_str e, 500), st)
      | Inr book \<Rightarrow>
          (case find (\<lambda>r. BookID_fk r = book_id \<and> ReturnDate r = None) (BorrowRecords st) of
             Some active_records \<Rightarrow> ((Error_json unreturned_msg, 400), st)
           | None \<Rightarrow>
               if list_ex (\<lambda>r. BookID_fk r = book_id) (BorrowRecords st)
               then ((Error_str IntegrityError, 500), st)
               else ((Message_json deleted_msg, 200),
                     st\<lparr>Books := filter (\<lambda>b. BookID b \<noteq> book_id) (Books st)\<rparr>)))"








text \<open>The literal of \<^verbatim>\<open>filter_by(Status=...)\<close>: the two code points U+501F U+51FA.\<close>

definition borrowed_Status :: pystr where
  "borrowed_Status = [0x501F, 0x51FA]"

text \<open>\<^verbatim>\<open>get_summary_stats\<close>; Python's integers are unbounded and signed.\<close>

definition get_summary_stats :: "db \<Rightarrow> response" where
  "get_summary_stats st =
     (let total_books = int (length (Books st));
          borrowed_books = int (length (filter (\<lambda>b. Status b = Some borrowed_Status) (Books st)));
          available_books = total_books - borrowed_books
      in (Summary_json total_books borrowed_books available_books, 200))"

text \<open>
  \<^verbatim>\<open>SELECT Category, COUNT(*) FROM Books GROUP BY Category\<close>: one row for each distinct
  value of the column, null being a value of its own, with the number of rows that
  have it. SQL leaves the order of the groups open; the model lists them in the order
  of \<open>remdups\<close>.
\<close>

definition group_by_Category :: "book list \<Rightarrow> (pystr option \<times> nat) list" where
  "group_by_Category books =
     map (\<lambda>c. (c, count_list (map Category books) c)) (remdups (map Category books))"

text \<open>The literal of \<^verbatim>\<open>row[0] or '...'\<close>: the three code points U+672A U+5206 U+7C7B.\<close>

definition uncategorized :: pystr where
  "uncategorized = [0x672A, 0x5206, 0x7C7B]"

text \<open>Python's \<^verbatim>\<open>x or y\<close> on a string or \<^verbatim>\<open>None\<close>.\<close>

definition or_else :: "pystr option \<Rightarrow> pystr \<Rightarrow> pystr" where
  "or_else x y = (case x of None \<Rightarrow> y | Some s \<Rightarrow> if s = [] then y else s)"

definition get_category_stats :: "db \<Rightarrow> response" where
  "get_category_stats st =
     (Category_json (map (\<lambda>row. (or_else (fst row) uncategorized, snd row))
                         (group_by_Category (Books st))), 200)"

subsection \<open>Example states and requests\<close>

definition empty_db :: db where
  "empty_db = \<lparr>Books = [], BorrowRecords = [], next_BookID = 1\<rparr>"

definition sample_book :: book where
  "sample_book = \<lparr>BookID = 1, ISBN = Some (ascii ''111''), Title = Some (ascii ''A''),
     Author = Some (ascii ''B''), Publisher = None, Category = None,
     Status = Some default_Status, CreateDate = Some 0\<rparr>"

definition active_loan :: borrow_record where
  "active_loan = \<lparr>RecordID = 1, BookID_fk = 1, BorrowerName = ascii ''C'', BorrowDate = 0,
     ReturnDate = None, Notes = None\<rparr>"

definition loaned_db :: db where
  "loaned_db = \<lparr>Books = [sample_book], BorrowRecords = [active_loan], next_BookID = 2\<rparr>"

definition second_book :: book where
  "second_book = \<lparr>BookID = 2, ISBN = Some (ascii ''222''), Title = Some (ascii ''C''),
     Author = Some (ascii ''D''), Publisher = None, Category = Some [],
     Status = Some (ascii ''borrowed''), CreateDate = Some 0\<rparr>"

definition two_db :: db where
  "two_db = \<lparr>Books = [sample_book, second_book], BorrowRecords = [], next_BookID = 3\<rparr>"

definition valid_request :: dict where
  "valid_request = [(ascii ''isbn'', Some (ascii ''111'')), (ascii ''title'', Some (ascii ''A'')),
     (ascii ''author'', Some (ascii ''B''))]"

subsection \<open>What the specification asks of an update and of a search\<close>




section \<open>Properties\<close>

subsection \<open>Looking a book up by its key\<close>

lemma get_or_404_absent:
  "book_id \<notin> BookID ` set books \<Longrightarrow> get_or_404 books book_id = Inl NotFound"
  by (auto simp: get_or_404_def query_get_def find_None_iff split: option.splits)

lemma get_or_404_member:
  "b \<in> set books \<Longrightarrow> \<exists>b'. get_or_404 books (BookID b) = Inr b'"
  by (cases "find (\<lambda>x. BookID x = BookID b) books")
     (auto simp: get_or_404_def query_get_def find_None_iff)

text \<open>
  For an id that no row has, \<open>get_or_404\<close> raises \<open>NotFound\<close> inside the handler's
  \<^verbatim>\<open>try\<close>, and the handler's \<^verbatim>\<open>except Exception\<close> answers 500.
\<close>

lemma absent_id_gives_500:
  assumes "book_id \<notin> BookID ` set (Books st)"
  shows "get_book st book_id = (Error_str NotFound, 500)"
    and "update_book st book_id data = ((Error_str NotFound, 500), st)"
    and "delete_book st book_id = ((Error_str NotFound, 500), st)"
  using get_or_404_absent [OF assms]
  by (simp_all add: get_book_def update_book_def delete_book_def)

text \<open>
  C1. The claim: for an id that is not in the table, GET, PUT and DELETE on
  \<^verbatim>\<open>/api/books/{id}\<close> each return status 404. On the empty table and the id 1 the
  three handlers return status 500, with the text of the caught \<open>NotFound\<close> as the
  error, and change nothing.
\<close>

theorem absent_id_status_500:
  "get_book empty_db 1 = (Error_str NotFound, 500)
   \<and> update_book empty_db 1 (Some []) = ((Error_str NotFound, 500), empty_db)
   \<and> delete_book empty_db 1 = ((Error_str NotFound, 500), empty_db)"
  by (simp add: get_book_def update_book_def delete_book_def get_or_404_def query_get_def
      empty_db_def)

subsection \<open>Deleting a book on loan\<close>

text \<open>
  C3. When a book of the table has a borrow record with its id and no return date,
  \<open>delete_book\<close> on that id answers 400 with the refusal message, and the state
  after the request is the state before it: the row of the book, like every other
  row, is unchanged.
\<close>

theorem delete_book_active_loan:
  assumes "b \<in> set (Books st)"
    and "r \<in> set (BorrowRecords st)"
    and "BookID_fk r = BookID b"
    and "ReturnDate r = None"
  shows "delete_book st (BookID b) = ((Error_json unreturned_msg, 400), st)"
proof -
  obtain b' where found: "get_or_404 (Books st) (BookID b) = Inr b'"
    using get_or_404_member [OF assms(1)] by blast
  have "find (\<lambda>x. BookID_fk x = BookID b \<and> ReturnDate x = None) (BorrowRecords st) \<noteq> None"
    using assms(2-4) by (auto simp: find_None_iff)
  then obtain a where
    "find (\<lambda>x. BookID_fk x = BookID b \<and> ReturnDate x = None) (BorrowRecords st) = Some a"
    by blast
  with found show ?thesis
    by (simp add: delete_book_def)
qed

theorem delete_book_active_loan_witness:
  "sample_book \<in> set (Books loaned_db) \<and> active_loan \<in> set (BorrowRecords loaned_db)
   \<and> BookID_fk active_loan = BookID sample_book \<and> ReturnDate active_loan = None
   \<and> delete_book loaned_db 1 = ((Error_json unreturned_msg, 400), loaned_db)
   \<and> Books loaned_db = [sample_book]"
proof -
  have m: "sample_book \<in> set (Books loaned_db)" "active_loan \<in> set (BorrowRecords loaned_db)"
    by (simp_all add: loaned_db_def)
  have k: "BookID_fk active_loan = BookID sample_book" "ReturnDate active_loan = None"
    by (simp_all add: active_loan_def sample_book_def)
  have "BookID sample_book = 1" by (simp add: sample_book_def)
  with delete_book_active_loan [OF m k] m k show ?thesis
    by (simp add: loaned_db_def)
qed

subsection \<open>Summary statistics\<close>

text \<open>
  C6. In every state the summary is returned with status 200 and its
  \<^verbatim>\<open>totalBooks\<close> is the sum of its \<^verbatim>\<open>borrowedBooks\<close> and \<^verbatim>\<open>availableBooks\<close>.
\<close>

theorem summary_total_is_sum:
  "\<exists>total borrowed available.
     get_summary_stats st = (Summary_json total borrowed available, 200)
     \<and> total = borrowed + available"
  by (simp add: get_summary_stats_def Let_def)

subsection \<open>Creating a book\<close>

lemma sublist_required_msg: "sublist g (required_msg g)"
  unfolding required_msg_def by (rule sublist_appendI)

lemma truthy_dict_get:
  "truthy (dict_get d k) \<Longrightarrow> \<exists>s. map_of d k = Some (Some s) \<and> s \<noteq> []"
  by (auto simp: truthy_def dict_get_def split: option.splits)

text \<open>
  When \<^verbatim>\<open>request.get_json()\<close> raises, and when it returns a true value that is not an
  object, the handler's \<^verbatim>\<open>except Exception\<close> answers 500 and nothing is inserted.
\<close>

lemma add_book_not_an_object:
  "add_book st now (Inl e) = ((Error_str e, 500), st)"
  "add_book st now (Inr (JOther True)) = ((Error_str AttributeError, 500), st)"
  by (simp_all add: add_book_def)

text \<open>
  C2, as the code has it, for a body that \<^verbatim>\<open>request.get_json()\<close> returns as a JSON
  object or as a false value. When the object lacks one of \<^verbatim>\<open>isbn\<close>, \<^verbatim>\<open>title\<close>,
  \<^verbatim>\<open>author\<close> or gives it a null or empty value, \<open>add_book\<close> answers 400 and leaves
  the state as it was. The empty object, like \<^verbatim>\<open>null\<close> and every other false value,
  gets the message of \<^verbatim>\<open>if not data\<close>, which names no field; every other object gets
  the message of the first field, in the order \<^verbatim>\<open>isbn\<close>, \<^verbatim>\<open>title\<close>, \<^verbatim>\<open>author\<close>, that
  is missing or empty, and the message of a field contains the field's name.
\<close>

theorem add_book_missing_field:
  assumes "f \<in> set required_fields" and "\<not> truthy (dict_get d f)"
  shows "(\<not> json_truthy data \<longrightarrow>
            add_book st now (Inr data) = ((Error_json no_data_msg, 400), st))
       \<and> add_book st now (Inr (JObject d)) =
          ((Error_json
              (if d = [] then no_data_msg
               else if \<not> truthy (dict_get d (ascii ''isbn'')) then required_msg (ascii ''isbn'')
               else if \<not> truthy (dict_get d (ascii ''title'')) then required_msg (ascii ''title'')
               else required_msg (ascii ''author'')), 400), st)
       \<and> sublist g (required_msg g)"
proof -
  have "f = ascii ''isbn'' \<or> f = ascii ''title'' \<or> f = ascii ''author''"
    using assms(1) by (auto simp: required_fields_def)
  with assms(2) show ?thesis
    by (auto simp: add_book_def required_fields_def sublist_required_msg)
qed

theorem add_book_missing_field_witness:
  "ascii ''title'' \<in> set required_fields
   \<and> \<not> truthy (dict_get [(ascii ''isbn'', Some (ascii ''111'')), (ascii ''title'', Some [])]
                  (ascii ''title''))
   \<and> \<not> json_truthy JNull
   \<and> add_book empty_db 0 (Inr JNull) = ((Error_json no_data_msg, 400), empty_db)
   \<and> add_book empty_db 0
        (Inr (JObject [(ascii ''isbn'', Some (ascii ''111'')), (ascii ''title'', Some [])]))
     = ((Error_json (required_msg (ascii ''title'')), 400), empty_db)"
proof -
  let ?d = "[(ascii ''isbn'', Some (ascii ''111'')), (ascii ''title'', Some [])]"
  have m: "ascii ''title'' \<in> set required_fields"
    by (simp add: required_fields_def)
  have e: "\<not> truthy (dict_get ?d (ascii ''title''))"
    by (simp add: truthy_def dict_get_def ascii_def)
  have i: "truthy (dict_get ?d (ascii ''isbn''))"
    by (simp add: truthy_def dict_get_def ascii_def)
  from add_book_missing_field [OF m e, of JNull empty_db 0] m e i show ?thesis
    by simp
qed

text \<open>
  The empty object lacks all three fields, and the message it gets contains the name
  of none of them.
\<close>

theorem add_book_empty_body_names_no_field:
  "add_book empty_db 0 (Inr (JObject [])) = ((Error_json no_data_msg, 400), empty_db)
   \<and> \<not> truthy (dict_get [] (ascii ''isbn''))
   \<and> \<not> sublist (ascii ''isbn'') no_data_msg
   \<and> \<not> sublist (ascii ''title'') no_data_msg
   \<and> \<not> sublist (ascii ''author'') no_data_msg"
  by (simp add: add_book_def no_data_msg_def ascii_def sublist_code truthy_def dict_get_def)

text \<open>
  C8, as the code has it. When the three required fields are present and non-empty and
  the body has no key \<^verbatim>\<open>status\<close>, \<open>add_book\<close> answers 201, appends one row, and the
  status of that row and of the returned dictionary is the default of the source:
  the two code points U+5728 U+67B6.
\<close>

theorem add_book_default_status:
  assumes "truthy (dict_get d (ascii ''isbn''))"
    and "truthy (dict_get d (ascii ''title''))"
    and "truthy (dict_get d (ascii ''author''))"
    and "map_of d (ascii ''status'') = None"
  shows "\<exists>book. add_book st now (Inr (JObject d)) =
            ((Book_json (to_dict book), 201),
             st\<lparr>Books := Books st @ [book], next_BookID := Suc (next_BookID st)\<rparr>)
          \<and> Status book = Some default_Status
          \<and> status (to_dict book) = Some default_Status"
proof -
  obtain i where i: "map_of d (ascii ''isbn'') = Some (Some i)"
    using truthy_dict_get [OF assms(1)] by blast
  obtain t where t: "map_of d (ascii ''title'') = Some (Some t)"
    using truthy_dict_get [OF assms(2)] by blast
  obtain a where a: "map_of d (ascii ''author'') = Some (Some a)"
    using truthy_dict_get [OF assms(3)] by blast
  have ne: "d \<noteq> []"
    using i by auto
  have all: "find (\<lambda>field. \<not> truthy (dict_get d field)) required_fields = None"
    using assms(1-3) by (simp add: required_fields_def)
  have new: "new_Book d = Inr \<lparr>BookID = 0, ISBN = Some i, Title = Some t, Author = Some a,
      Publisher = dict_get d (ascii ''publisher''), Category = dict_get d (ascii ''category''),
      Status = Some default_Status, CreateDate = None\<rparr>"
    by (simp add: new_Book_def bind_exn_def dict_item_def i t a assms(4))
  let ?book = "\<lparr>BookID = next_BookID st, ISBN = Some i, Title = Some t, Author = Some a,
      Publisher = dict_get d (ascii ''publisher''), Category = dict_get d (ascii ''category''),
      Status = Some default_Status, CreateDate = Some now\<rparr>"
  have "add_book st now (Inr (JObject d)) =
            ((Book_json (to_dict ?book), 201),
             st\<lparr>Books := Books st @ [?book], next_BookID := Suc (next_BookID st)\<rparr>)"
    by (simp add: add_book_def ne all new bind_exn_def session_add_commit_def
        insert_defaults_def not_null_ok_def Let_def)
  moreover have "Status ?book = Some default_Status"
    by simp
  moreover have "status (to_dict ?book) = Some default_Status"
    by (simp add: to_dict_def)
  ultimately show ?thesis
    by blast
qed

theorem add_book_default_status_witness:
  "truthy (dict_get valid_request (ascii ''isbn''))
   \<and> truthy (dict_get valid_request (ascii ''title''))
   \<and> truthy (dict_get valid_request (ascii ''author''))
   \<and> map_of valid_request (ascii ''status'') = None
   \<and> add_book empty_db 0 (Inr (JObject valid_request)) =
       ((Book_json (to_dict sample_book), 201),
        empty_db\<lparr>Books := [sample_book], next_BookID := 2\<rparr>)
   \<and> Status sample_book = Some default_Status"
proof -
  have k: "truthy (dict_get valid_request (ascii ''isbn''))"
    "truthy (dict_get valid_request (ascii ''title''))"
    "truthy (dict_get valid_request (ascii ''author''))"
    "map_of valid_request (ascii ''status'') = None"
    by (simp_all add: valid_request_def truthy_def dict_get_def ascii_def)
  have e: "add_book empty_db 0 (Inr (JObject valid_request)) =
     ((Book_json (to_dict sample_book), 201),
      empty_db\<lparr>Books := [sample_book], next_BookID := 2\<rparr>)"
    by (simp add: add_book_def valid_request_def required_fields_def truthy_def dict_get_def
        new_Book_def bind_exn_def dict_item_def session_add_commit_def insert_defaults_def
        not_null_ok_def Let_def empty_db_def sample_book_def ascii_def)
  from add_book_default_status [OF k, of empty_db 0] e k show ?thesis
    by (auto simp: empty_db_def)
qed

text \<open>
  On the empty table, the request of the specification's own scenario is answered
  with a book whose status is those two code points, not the text \<^verbatim>\<open>on-shelf\<close>.
\<close>

theorem default_status_not_on_shelf:
  "fst (add_book empty_db 0 (Inr (JObject valid_request))) = (Book_json (to_dict sample_book), 201)
   \<and> map_of valid_request (ascii ''status'') = None
   \<and> status (to_dict sample_book) = Some [0x5728, 0x67B6]
   \<and> status (to_dict sample_book) \<noteq> Some (ascii ''on-shelf'')"
  by (simp add: add_book_def valid_request_def required_fields_def truthy_def dict_get_def
      new_Book_def bind_exn_def dict_item_def session_add_commit_def insert_defaults_def
      not_null_ok_def Let_def empty_db_def sample_book_def ascii_def to_dict_def
      default_Status_def)

subsection \<open>Updating a book\<close>








subsection \<open>Searching\<close>









subsection \<open>The count of borrowed books\<close>

text \<open>
  C7, as the code has it. In every state \<^verbatim>\<open>borrowedBooks\<close> is the number of rows whose
  status is exactly the literal of the source, the two code points U+501F U+51FA.
\<close>

theorem borrowed_count_exact_label:
  "\<exists>total available.
     get_summary_stats st =
       (Summary_json total
          (int (card {i. i < length (Books st) \<and> Status (Books st ! i) = Some borrowed_Status}))
          available, 200)"
  by (simp add: get_summary_stats_def Let_def length_filter_conv_card)

text \<open>
  A table with a book whose status is exactly the text \<^verbatim>\<open>borrowed\<close>: the summary
  counts no borrowed book.
\<close>

theorem english_borrowed_not_counted:
  "get_summary_stats two_db = (Summary_json 2 0 2, 200)
   \<and> second_book \<in> set (Books two_db)
   \<and> Status second_book = Some (ascii ''borrowed'')"
  by (simp add: get_summary_stats_def two_db_def sample_book_def second_book_def
      borrowed_Status_def default_Status_def ascii_def)

subsection \<open>Category statistics\<close>

lemma sum_group_counts:
  "sum_list (map snd (group_by_Category books)) = length books"
proof -
  have "sum_list (map snd (group_by_Category books))
        = sum_list (map (count_list (map Category books)) (remdups (map Category books)))"
    by (simp add: group_by_Category_def comp_def)
  also have "\<dots> = sum (count_list (map Category books)) (set (map Category books))"
    by (simp add: sum_list_distinct_conv_sum_set)
  also have "\<dots> = length (map Category books)"
    by (rule sum_count_set) simp_all
  finally show ?thesis by simp
qed

lemma count_list_Category:
  "count_list (map Category books) c = length (filter (\<lambda>x. Category x = c) books)"
  by (induction books) simp_all

lemma group_row:
  "b \<in> set books \<Longrightarrow>
   (Category b, length (filter (\<lambda>x. Category x = Category b) books)) \<in> set (group_by_Category books)"
  by (simp add: group_by_Category_def count_list_Category image_iff) blast

lemma stats_entry:
  assumes "b \<in> set books"
  shows "(or_else (Category b) uncategorized,
          length (filter (\<lambda>x. Category x = Category b) books))
         \<in> set (map (\<lambda>row. (or_else (fst row) uncategorized, snd row)) (group_by_Category books))"
  using group_row [OF assms] by (force simp: image_iff)

text \<open>
  C9, as the code has it. In every state the counts of \<open>get_category_stats\<close> add up
  to the \<^verbatim>\<open>totalBooks\<close> of \<open>get_summary_stats\<close>, and when a book has a null category
  the output has an entry that counts the books with a null category under the
  literal of the source, the three code points U+672A U+5206 U+7C7B.
\<close>

theorem category_stats_sum_and_null_bucket:
  "\<exists>stats. get_category_stats st = (Category_json stats, 200)
     \<and> (\<exists>borrowed available.
          get_summary_stats st = (Summary_json (int (sum_list (map snd stats))) borrowed available, 200))
     \<and> (\<forall>b \<in> set (Books st). Category b = None \<longrightarrow>
          (uncategorized, length (filter (\<lambda>x. Category x = None) (Books st))) \<in> set stats)"
proof -
  let ?stats = "map (\<lambda>row. (or_else (fst row) uncategorized, snd row)) (group_by_Category (Books st))"
  have s: "sum_list (map snd ?stats) = length (Books st)"
    using sum_group_counts [of "Books st"] by (simp add: comp_def)
  have n: "(uncategorized, length (filter (\<lambda>x. Category x = None) (Books st))) \<in> set ?stats"
    if "b \<in> set (Books st)" "Category b = None" for b
    using stats_entry [OF that(1)] that(2) by (simp add: or_else_def)
  have "get_category_stats st = (Category_json ?stats, 200)"
    by (simp add: get_category_stats_def)
  moreover have "\<exists>borrowed available.
          get_summary_stats st = (Summary_json (int (sum_list (map snd ?stats))) borrowed available, 200)"
    unfolding s by (simp add: get_summary_stats_def Let_def)
  ultimately show ?thesis
    using n by blast
qed

theorem category_stats_sum_and_null_bucket_witness:
  "sample_book \<in> set (Books loaned_db) \<and> Category sample_book = None
   \<and> get_category_stats loaned_db = (Category_json [(uncategorized, 1)], 200)
   \<and> get_summary_stats loaned_db = (Summary_json 1 0 1, 200)"
proof -
  have b: "sample_book \<in> set (Books loaned_db)" "Category sample_book = None"
    by (simp_all add: loaned_db_def sample_book_def)
  have f: "length (filter (\<lambda>x. Category x = None) (Books loaned_db)) = 1"
    by (simp add: loaned_db_def sample_book_def)
  have g: "get_category_stats loaned_db = (Category_json [(uncategorized, 1)], 200)"
    by (simp add: get_category_stats_def group_by_Category_def loaned_db_def sample_book_def
        or_else_def)
  have h: "get_summary_stats loaned_db = (Summary_json 1 0 1, 200)"
    by (simp add: get_summary_stats_def loaned_db_def sample_book_def borrowed_Status_def
        default_Status_def)
  from category_stats_sum_and_null_bucket [of loaned_db] b f g h show ?thesis
    by simp
qed

text \<open>
  The one book of this table has a null category, and the label of its entry is
  those three code points, not the text \<^verbatim>\<open>uncategorized\<close>.
\<close>

theorem null_bucket_label_not_english:
  "get_category_stats loaned_db = (Category_json [([0x672A, 0x5206, 0x7C7B], 1)], 200)
   \<and> Category sample_book = None
   \<and> [0x672A, 0x5206, 0x7C7B] \<noteq> ascii ''uncategorized''"
  by (simp add: get_category_stats_def group_by_Category_def loaned_db_def sample_book_def
      or_else_def uncategorized_def ascii_def)

lemma group_positions:
  assumes "b \<in> set books" and "b' \<in> set books" and "Category b \<noteq> Category b'"
  shows "\<exists>i j. i < length (group_by_Category books) \<and> j < length (group_by_Category books)
           \<and> i \<noteq> j
           \<and> group_by_Category books ! i
               = (Category b, length (filter (\<lambda>x. Category x = Category b) books))
           \<and> group_by_Category books ! j
               = (Category b', length (filter (\<lambda>x. Category x = Category b') books))"
proof -
  let ?cs = "remdups (map Category books)"
  have "Category b \<in> set ?cs" "Category b' \<in> set ?cs"
    using assms(1,2) by auto
  then obtain i j where ij: "i < length ?cs" "?cs ! i = Category b"
      "j < length ?cs" "?cs ! j = Category b'"
    unfolding in_set_conv_nth by blast
  with assms(3) have "i \<noteq> j"
    by auto
  with ij show ?thesis
    by (intro exI [of _ i] exI [of _ j]) (simp add: group_by_Category_def count_list_Category)
qed

text \<open>
  C10, as the code has it. The output has one entry for each distinct value of the
  category column, null and the empty string being two values, and no entry has the
  empty string as its label. When a book has the empty string as its category, an
  entry counts the books with the empty category under the label that the null
  category gets. When the table also has a book with a null category, that entry
  and the entry of the null category are two entries, at two positions of the
  output, with the same label, and each has the count of its own group.
\<close>

theorem empty_category_relabelled:
  "\<exists>stats. get_category_stats st = (Category_json stats, 200)
     \<and> length stats = card (Category ` set (Books st))
     \<and> (\<forall>e \<in> set stats. fst e \<noteq> [])
     \<and> (\<forall>b \<in> set (Books st). Category b = Some [] \<longrightarrow>
          (uncategorized, length (filter (\<lambda>x. Category x = Some []) (Books st))) \<in> set stats)
     \<and> ((\<exists>b \<in> set (Books st). Category b = Some []) \<and> (\<exists>b \<in> set (Books st). Category b = None)
          \<longrightarrow> (\<exists>i j. i < length stats \<and> j < length stats \<and> i \<noteq> j
                 \<and> stats ! i
                     = (uncategorized, length (filter (\<lambda>x. Category x = Some []) (Books st)))
                 \<and> stats ! j
                     = (uncategorized, length (filter (\<lambda>x. Category x = None) (Books st)))))"
proof -
  let ?relabel = "\<lambda>row :: pystr option \<times> nat. (or_else (fst row) uncategorized, snd row)"
  let ?groups = "group_by_Category (Books st)"
  let ?stats = "map ?relabel ?groups"
  have n: "(uncategorized, length (filter (\<lambda>x. Category x = Some []) (Books st))) \<in> set ?stats"
    if "b \<in> set (Books st)" "Category b = Some []" for b
    using stats_entry [OF that(1)] that(2) by (simp add: or_else_def)
  have l: "or_else c uncategorized \<noteq> []" for c
    by (simp add: or_else_def uncategorized_def split: option.splits)
  have len: "length ?stats = card (Category ` set (Books st))"
    by (simp add: group_by_Category_def length_remdups_card_conv)
  have two: "\<exists>i j. i < length ?stats \<and> j < length ?stats \<and> i \<noteq> j
                 \<and> ?stats ! i
                     = (uncategorized, length (filter (\<lambda>x. Category x = Some []) (Books st)))
                 \<and> ?stats ! j
                     = (uncategorized, length (filter (\<lambda>x. Category x = None) (Books st)))"
    if "\<exists>b \<in> set (Books st). Category b = Some []" "\<exists>b \<in> set (Books st). Category b = None"
  proof -
    from that obtain b b' where b: "b \<in> set (Books st)" "Category b = Some []"
      "b' \<in> set (Books st)" "Category b' = None"
      by blast
    then have "Category b \<noteq> Category b'"
      by simp
    from group_positions [OF b(1) b(3) this] obtain i j where
      ij: "i < length ?groups" "j < length ?groups" "i \<noteq> j"
        "?groups ! i = (Some [], length (filter (\<lambda>x. Category x = Some []) (Books st)))"
        "?groups ! j = (None, length (filter (\<lambda>x. Category x = None) (Books st)))"
      using b(2,4) by auto
    then have "?stats ! i
                 = (uncategorized, length (filter (\<lambda>x. Category x = Some []) (Books st)))"
      "?stats ! j = (uncategorized, length (filter (\<lambda>x. Category x = None) (Books st)))"
      by (simp_all add: or_else_def)
    with ij(1-3) show ?thesis
      by (intro exI [of _ i] exI [of _ j]) simp
  qed
  have "get_category_stats st = (Category_json ?stats, 200)"
    by (simp add: get_category_stats_def)
  moreover have "\<forall>e \<in> set ?stats. fst e \<noteq> []"
    using l by auto
  ultimately show ?thesis
    using n len two by blast
qed

theorem empty_category_relabelled_witness:
  "second_book \<in> set (Books two_db) \<and> Category second_book = Some []
   \<and> sample_book \<in> set (Books two_db) \<and> Category sample_book = None
   \<and> card (Category ` set (Books two_db)) = 2
   \<and> get_category_stats two_db = (Category_json [(uncategorized, 1), (uncategorized, 1)], 200)"
proof -
  have b: "second_book \<in> set (Books two_db)" "Category second_book = Some []"
    "sample_book \<in> set (Books two_db)" "Category sample_book = None"
    by (simp_all add: two_db_def second_book_def sample_book_def)
  have g: "get_category_stats two_db = (Category_json [(uncategorized, 1), (uncategorized, 1)], 200)"
    by (simp add: get_category_stats_def group_by_Category_def two_db_def sample_book_def
        second_book_def or_else_def)
  from empty_category_relabelled [of two_db] obtain stats where
    "get_category_stats two_db = (Category_json stats, 200)"
    "length stats = card (Category ` set (Books two_db))"
    by blast
  with g have "card (Category ` set (Books two_db)) = 2"
    by simp
  with b g show ?thesis
    by simp
qed

text \<open>
  A table of one book with a null category and one with the empty category: the
  output has two entries with the same label, each counting one book, and no entry
  that counts both.
\<close>

theorem null_and_empty_category_two_buckets:
  "Books two_db = [sample_book, second_book]
   \<and> Category sample_book = None \<and> Category second_book = Some []
   \<and> get_category_stats two_db = (Category_json [(uncategorized, 1), (uncategorized, 1)], 200)
   \<and> (uncategorized, 2) \<notin> set [(uncategorized, 1 :: nat), (uncategorized, 1)]"
  by (simp add: get_category_stats_def group_by_Category_def two_db_def sample_book_def
      second_book_def or_else_def)

end
